theory Spec2Isabelle
  imports Main "HOL-Library.Word" "HOL-Library.AList" "HOL-Library.Multiset"
begin

section \<open>Configuration (apis/config.go, config/config.go)\<close>

text \<open>
  \<^verbatim>\<open>apis.Config\<close> is a struct of three knobs. \<^verbatim>\<open>MaxUnwrap\<close> is a Go \<^verbatim>\<open>int\<close>;
  it is modelled as a 64-bit word that the code reads as a signed number (\<open>sint\<close>).
\<close>

record Config =
  IncludeBuiltins :: bool
  MaxUnwrap :: "64 word"
  MapPreferElem :: bool

definition DefaultIncludeBuiltins :: bool where
  "DefaultIncludeBuiltins = True"

definition DefaultMaxUnwrap :: "64 word" where
  "DefaultMaxUnwrap = 8"

definition DefaultMapPreferElem :: bool where
  "DefaultMapPreferElem = True"

definition DefaultConfig :: Config where
  "DefaultConfig =
     \<lparr>IncludeBuiltins = DefaultIncludeBuiltins,
      MaxUnwrap = DefaultMaxUnwrap,
      MapPreferElem = DefaultMapPreferElem\<rparr>"

section \<open>Type descriptors (the part of reflect.Type the code reads)\<close>

text \<open>
  The code reads a \<^verbatim>\<open>reflect.Type\<close> through \<^verbatim>\<open>Kind()\<close>, \<^verbatim>\<open>Name()\<close>, \<^verbatim>\<open>PkgPath()\<close>,
  \<^verbatim>\<open>Elem()\<close> and \<^verbatim>\<open>Key()\<close>. A descriptor is therefore one of
  \<^item> \<open>Plain name pkg\<close>: a type of any kind other than pointer, slice, array, channel
    or map (struct, interface, func, int, string, ...), the \<^verbatim>\<open>default\<close> branch of the
    kind switch;
  \<^item> \<open>Container k name pkg elem\<close>: a pointer, slice, array or channel with its element;
  \<^item> \<open>MapOf name pkg key elem\<close>: a map with its key and element.
  Every descriptor carries its declared name and package path: both are empty for a
  type literal such as \<^verbatim>\<open>*A\<close> or \<^verbatim>\<open>[]A\<close>, and non-empty for a declared type such as
  \<^verbatim>\<open>type Ids []int\<close>. A nil \<^verbatim>\<open>reflect.Type\<close> is \<open>None\<close>.
\<close>

datatype kind = Ptr | Slice | Array | Chan

datatype rtype =
    Plain string string
  | Container kind string string rtype
  | MapOf string string rtype rtype

fun Name :: "rtype \<Rightarrow> string" where
  "Name (Plain n p) = n"
| "Name (Container k n p e) = n"
| "Name (MapOf n p kt et) = n"

fun PkgPath :: "rtype \<Rightarrow> string" where
  "PkgPath (Plain n p) = p"
| "PkgPath (Container k n p e) = p"
| "PkgPath (MapOf n p kt et) = p"

section \<open>Errors and panics\<close>

datatype error =
    ErrReflectNilType
  | ErrReflectTypeNotNamed
  | ErrNilType
  | ErrEmptyName
  | ErrConflictingRegistration
  | ErrNilRegistry
  | ErrNilResolver

section \<open>Normalize (utils/reflect)\<close>

text \<open>
  What the code does once the loop \<^verbatim>\<open>for i := 0; t != nil && i < maxUnwrap; i++\<close> is
  left without a \<^verbatim>\<open>return\<close>: the last descriptor is accepted when it has a name.
\<close>

definition normalize_end :: "rtype option \<Rightarrow> error + rtype" where
  "normalize_end t =
     (case t of
        None \<Rightarrow> Inl ErrReflectTypeNotNamed
      | Some ty \<Rightarrow> if Name ty \<noteq> [] then Inr ty else Inl ErrReflectTypeNotNamed)"

text \<open>
  The loop, with its counter \<open>i\<close>, its bound and the preference flag. \<^verbatim>\<open>Elem()\<close> and
  \<^verbatim>\<open>Key()\<close> of a container are never nil, so the tests \<^verbatim>\<open>et != nil\<close> and \<^verbatim>\<open>kt != nil\<close>
  always pass and only the name tests remain.
\<close>

function normalize_loop :: "int \<Rightarrow> int \<Rightarrow> bool \<Rightarrow> rtype option \<Rightarrow> error + rtype" where
  "normalize_loop i maxUnwrap preferElem t =
     (case t of
        None \<Rightarrow> normalize_end t
      | Some ty \<Rightarrow>
          if i < maxUnwrap then
            (case ty of
               Container k n p e \<Rightarrow> normalize_loop (i + 1) maxUnwrap preferElem (Some e)
             | MapOf n p kt et \<Rightarrow>
                 if preferElem then
                   (if Name et \<noteq> [] then Inr et
                    else if Name kt \<noteq> [] then Inr kt
                    else normalize_loop (i + 1) maxUnwrap preferElem (Some et))
                 else
                   (if Name kt \<noteq> [] then Inr kt
                    else if Name et \<noteq> [] then Inr et
                    else normalize_loop (i + 1) maxUnwrap preferElem (Some et))
             | Plain n p \<Rightarrow>
                 if Name ty \<noteq> [] then Inr ty else Inl ErrReflectTypeNotNamed)
          else normalize_end t)"
  by pat_completeness auto
termination
  by (relation "measure (\<lambda>(i, maxUnwrap, preferElem, t). nat (maxUnwrap - i))") auto

declare normalize_loop.simps [simp del]

definition Normalize :: "rtype option \<Rightarrow> Config \<Rightarrow> error + rtype" where
  "Normalize t c =
     (if t = None then Inl ErrReflectNilType
      else
        let maxUnwrap = (if sint (MaxUnwrap c) \<le> 0 then DefaultMaxUnwrap else MaxUnwrap c)
        in normalize_loop 0 (sint maxUnwrap) (MapPreferElem c) t)"

text \<open>
  Wrapping a type in type literals: \<open>wrap [Ptr, Slice] T\<close> is \<^verbatim>\<open>*[]T\<close>. A type literal has
  no name and no package path.
\<close>

fun wrap :: "kind list \<Rightarrow> rtype \<Rightarrow> rtype" where
  "wrap [] T = T"
| "wrap (k # ks) T = Container k [] [] (wrap ks T)"

section \<open>Registry (registry/registry.go)\<close>

text \<open>
  The \<^verbatim>\<open>sync.Map\<close> from normalized type to name is an association list read with
  \<open>Load\<close> and written with \<open>Store\<close>. The counter is a Go \<^verbatim>\<open>int\<close> that counts stored
  entries, so it stays far from the end of its range and is an \<open>int\<close> here. Every method
  takes the registry and returns its result together with the registry after the call.
\<close>

definition Load :: "('k \<times> 'v) list \<Rightarrow> 'k \<Rightarrow> 'v option" where
  "Load al k = map_of al k"

definition Store :: "'k \<Rightarrow> 'v \<Rightarrow> ('k \<times> 'v) list \<Rightarrow> ('k \<times> 'v) list" where
  "Store k v al = AList.update k v al"

record registry =
  reg_cfg :: Config
  reg_m :: "(rtype \<times> string) list"
  reg_count :: int

definition registry_New :: "Config \<Rightarrow> registry" where
  "registry_New c =
     \<lparr>reg_cfg = (if sint (MaxUnwrap c) \<le> 0 then c\<lparr>MaxUnwrap := DefaultMaxUnwrap\<rparr> else c),
      reg_m = [],
      reg_count = 0\<rparr>"

text \<open>
  \<^verbatim>\<open>Register\<close> returns \<open>None\<close> for a nil error. The map is read twice, before and after
  taking the mutex, as in the source.
\<close>

definition Register :: "rtype option \<Rightarrow> string \<Rightarrow> registry \<Rightarrow> error option \<times> registry" where
  "Register t name r =
     (if t = None then (Some ErrNilType, r)
      else if name = [] then (Some ErrEmptyName, r)
      else
        case Normalize t (reg_cfg r) of
          Inl err \<Rightarrow> (Some err, r)
        | Inr b \<Rightarrow>
            (case Load (reg_m r) b of
               Some old \<Rightarrow>
                 if old = name then (None, r) else (Some ErrConflictingRegistration, r)
             | None \<Rightarrow>
                 (case Load (reg_m r) b of
                    Some old \<Rightarrow>
                      if old = name then (None, r) else (Some ErrConflictingRegistration, r)
                  | None \<Rightarrow>
                      (None, r\<lparr>reg_m := Store b name (reg_m r),
                                reg_count := reg_count r + 1\<rparr>))))"

definition Lookup :: "rtype option \<Rightarrow> registry \<Rightarrow> (string \<times> bool) \<times> registry" where
  "Lookup t r =
     (if t = None then (([], False), r)
      else
        case Normalize t (reg_cfg r) of
          Inl err \<Rightarrow> (([], False), r)
        | Inr nt \<Rightarrow>
            (case Load (reg_m r) nt of
               Some v \<Rightarrow> ((v, True), r)
             | None \<Rightarrow> (([], False), r)))"

text \<open>
  \<^verbatim>\<open>Entries\<close> collects the pairs that \<^verbatim>\<open>Range\<close> visits. Go leaves the order of \<^verbatim>\<open>Range\<close> open,
  so the order is a parameter: \<open>ord\<close> lists the pairs of a map in the order of one
  traversal. A traversal visits each pair once (\<open>visits_each_once\<close>); nothing else is
  known of it.
\<close>

type_synonym range_order = "(rtype \<times> string) list \<Rightarrow> (rtype \<times> string) list"


definition Entries :: "range_order \<Rightarrow> registry \<Rightarrow> (rtype \<times> string) list" where
  "Entries ord r = ord (reg_m r)"


definition Reset :: "registry \<Rightarrow> registry" where
  "Reset r = r\<lparr>reg_m := [], reg_count := 0\<rparr>"

section \<open>Strategies (strategy/*.go)\<close>

text \<open>
  A Go value passed as \<^verbatim>\<open>any\<close> is nil (\<open>None\<close>) or has a dynamic type and, when it
  implements \<^verbatim>\<open>apis.Namer\<close>, the name its \<^verbatim>\<open>EntityName()\<close> returns.
\<close>

datatype goval = GoVal (TypeOf: rtype) (EntityName: "string option")

subsection \<open>Reflective fallback (strategy/reflect.go)\<close>

record cacheKey =
  ck_t :: "rtype option"
  ck_includeBuiltin :: bool
  ck_maxUnwrap :: "16 word"
  ck_mapPreferElem :: bool

type_synonym typeNameCache = "cacheKey \<Rightarrow> string option"

fun IndexByte :: "string \<Rightarrow> char \<Rightarrow> int" where
  "IndexByte [] c = - 1"
| "IndexByte (x # xs) c =
     (if x = c then 0
      else (let i = IndexByte xs c in if i < 0 then - 1 else i + 1))"

definition stripTypeParams :: "string \<Rightarrow> string" where
  "stripTypeParams s =
     (let i = IndexByte s (CHR ''['') in if i \<ge> 0 then take (nat i) s else s)"

text \<open>
  \<^verbatim>\<open>path.Base\<close> of the Go library: the last element of a slash-separated path, after
  removing trailing slashes; \<^verbatim>\<open>.\<close> for the empty path and \<^verbatim>\<open>/\<close> for a path of slashes.
\<close>

definition path_Base :: "string \<Rightarrow> string" where
  "path_Base p =
     (if p = [] then ''.''
      else
        let p1 = rev (dropWhile (\<lambda>c. c = CHR ''/'') (rev p));
            p2 = rev (takeWhile (\<lambda>c. c \<noteq> CHR ''/'') (rev p1))
        in if p2 = [] then ''/'' else p2)"

text \<open>
  \<^verbatim>\<open>byType\<close> with the package-level cache passed in and returned. The conversion
  \<^verbatim>\<open>int16(cfg.MaxUnwrap)\<close> keeps the low 16 bits (\<open>ucast\<close>).
\<close>

definition byType :: "rtype option \<Rightarrow> Config \<Rightarrow> typeNameCache \<Rightarrow> string \<times> typeNameCache" where
  "byType t c cache =
     (let key = \<lparr>ck_t = t,
                 ck_includeBuiltin = IncludeBuiltins c,
                 ck_maxUnwrap = ucast (MaxUnwrap c),
                 ck_mapPreferElem = MapPreferElem c\<rparr>
      in case cache key of
           Some v \<Rightarrow> (v, cache)
         | None \<Rightarrow>
             (case Normalize t c of
                Inl err \<Rightarrow> ([], cache(key \<mapsto> []))
              | Inr base \<Rightarrow>
                  let name = stripTypeParams (Name base);
                      name = (if PkgPath base \<noteq> [] then path_Base (PkgPath base) @ ''.'' @ name
                              else if \<not> IncludeBuiltins c then []
                              else name)
                  in (name, cache(key \<mapsto> name))))"


text \<open>
  The name the fallback stands for, without the cache: normalize \<open>t\<close> under the config
  and format the result under the same config.
\<close>

definition direct_name :: "rtype option \<Rightarrow> Config \<Rightarrow> string" where
  "direct_name t c =
     (case Normalize t c of
        Inl err \<Rightarrow> []
      | Inr base \<Rightarrow>
          if PkgPath base \<noteq> [] then path_Base (PkgPath base) @ ''.'' @ stripTypeParams (Name base)
          else if IncludeBuiltins c then stripTypeParams (Name base)
          else [])"

definition reflect_TryResolve ::
  "goval option \<Rightarrow> Config \<Rightarrow> typeNameCache \<Rightarrow> (string \<times> bool) \<times> typeNameCache" where
  "reflect_TryResolve v c cache =
     (case v of
        None \<Rightarrow> (([], False), cache)
      | Some x \<Rightarrow> (let (n, cache') = byType (Some (TypeOf x)) c cache in ((n, True), cache')))"

definition reflect_TryResolveType ::
  "rtype option \<Rightarrow> Config \<Rightarrow> typeNameCache \<Rightarrow> (string \<times> bool) \<times> typeNameCache" where
  "reflect_TryResolveType t c cache =
     (if t = None then (([], False), cache)
      else (let (n, cache') = byType t c cache in ((n, True), cache')))"

subsection \<open>Instance naming (namerStrategy) and registry lookup (registryStrategy)\<close>

definition namer_TryResolve :: "goval option \<Rightarrow> Config \<Rightarrow> string \<times> bool" where
  "namer_TryResolve v c =
     (case v of
        None \<Rightarrow> ([], False)
      | Some x \<Rightarrow> (case EntityName x of Some n \<Rightarrow> (n, True) | None \<Rightarrow> ([], False)))"

definition namer_TryResolveType :: "rtype option \<Rightarrow> Config \<Rightarrow> string \<times> bool" where
  "namer_TryResolveType t c = ([], False)"

definition registry_TryResolve :: "registry option \<Rightarrow> goval option \<Rightarrow> Config \<Rightarrow> string \<times> bool" where
  "registry_TryResolve sreg v c =
     (case (v, sreg) of
        (Some x, Some r) \<Rightarrow> fst (Lookup (Some (TypeOf x)) r)
      | _ \<Rightarrow> ([], False))"

definition registry_TryResolveType :: "registry option \<Rightarrow> rtype option \<Rightarrow> Config \<Rightarrow> string \<times> bool" where
  "registry_TryResolveType sreg t c =
     (case (t, sreg) of
        (Some ty, Some r) \<Rightarrow> fst (Lookup t r)
      | _ \<Rightarrow> ([], False))"

section \<open>Resolver chain (resolver/resolver.go)\<close>

datatype strategy = namerStrategy | registryStrategy "registry option" | reflectStrategy

fun TryResolve ::
  "strategy \<Rightarrow> goval option \<Rightarrow> Config \<Rightarrow> typeNameCache \<Rightarrow> (string \<times> bool) \<times> typeNameCache" where
  "TryResolve namerStrategy v c cache = (namer_TryResolve v c, cache)"
| "TryResolve (registryStrategy sreg) v c cache = (registry_TryResolve sreg v c, cache)"
| "TryResolve reflectStrategy v c cache = reflect_TryResolve v c cache"

fun TryResolveType ::
  "strategy \<Rightarrow> rtype option \<Rightarrow> Config \<Rightarrow> typeNameCache \<Rightarrow> (string \<times> bool) \<times> typeNameCache" where
  "TryResolveType namerStrategy t c cache = (namer_TryResolveType t c, cache)"
| "TryResolveType (registryStrategy sreg) t c cache = (registry_TryResolveType sreg t c, cache)"
| "TryResolveType reflectStrategy t c cache = reflect_TryResolveType t c cache"

record chain =
  strats :: "strategy list"

fun filter_nil :: "'a option list \<Rightarrow> 'a list" where
  "filter_nil [] = []"
| "filter_nil (None # ss) = filter_nil ss"
| "filter_nil (Some s # ss) = s # filter_nil ss"

definition resolver_New :: "strategy option list \<Rightarrow> chain" where
  "resolver_New strategies = \<lparr>strats = filter_nil strategies\<rparr>"

fun resolve_loop ::
  "strategy list \<Rightarrow> goval option \<Rightarrow> Config \<Rightarrow> typeNameCache \<Rightarrow> string \<times> typeNameCache" where
  "resolve_loop [] v c cache = ([], cache)"
| "resolve_loop (s # ss) v c cache =
     (case TryResolve s v c cache of
        ((name, True), cache') \<Rightarrow> (name, cache')
      | ((name, False), cache') \<Rightarrow> resolve_loop ss v c cache')"

fun resolveType_loop ::
  "strategy list \<Rightarrow> rtype option \<Rightarrow> Config \<Rightarrow> typeNameCache \<Rightarrow> string \<times> typeNameCache" where
  "resolveType_loop [] t c cache = ([], cache)"
| "resolveType_loop (s # ss) t c cache =
     (case TryResolveType s t c cache of
        ((name, True), cache') \<Rightarrow> (name, cache')
      | ((name, False), cache') \<Rightarrow> resolveType_loop ss t c cache')"

definition Resolve :: "chain \<Rightarrow> goval option \<Rightarrow> Config \<Rightarrow> typeNameCache \<Rightarrow> string \<times> typeNameCache" where
  "Resolve r v c cache = resolve_loop (strats r) v c cache"

definition ResolveType :: "chain \<Rightarrow> rtype option \<Rightarrow> Config \<Rightarrow> typeNameCache \<Rightarrow> string \<times> typeNameCache" where
  "ResolveType r t c cache = resolveType_loop (strats r) t c cache"

section \<open>Builder (apis.Builder and the default builder)\<close>

text \<open>
  A builder is a value with the two methods of the \<^verbatim>\<open>apis.Builder\<close> interface. The
  registry, the resolver and the extension payload it handles are interface values:
  \<open>'reg\<close>, \<open>'res\<close> and \<open>'x\<close> stand for the non-nil ones, \<open>None\<close> for nil. A builder is
  taken to be a function of its arguments.
\<close>

record ('reg, 'res, 'x) Builder =
  BuildRegistry :: "Config \<Rightarrow> 'reg option \<Rightarrow> 'x option \<Rightarrow> 'reg option"
  BuildResolver :: "Config \<Rightarrow> 'reg option \<Rightarrow> 'res option \<Rightarrow> 'x option \<Rightarrow> 'res option"

text \<open>
  The default builder, \<^verbatim>\<open>builder.New()\<close>: a fresh registry into which the entries of
  the previous one are registered again (errors dropped), in the order \<open>ord\<close> in which
  \<^verbatim>\<open>Entries\<close> lists them, and a fresh chain of the three strategies around the given
  registry.
\<close>

definition builder_BuildRegistry ::
  "range_order \<Rightarrow> Config \<Rightarrow> registry option \<Rightarrow> 'x option \<Rightarrow> registry option" where
  "builder_BuildRegistry ord c prev x =
     (let nreg = registry_New c
      in case prev of
           None \<Rightarrow> Some nreg
         | Some pr \<Rightarrow> Some (fold (\<lambda>e nr. snd (Register (Some (fst e)) (snd e) nr)) (Entries ord pr) nreg))"

definition builder_BuildResolver ::
  "Config \<Rightarrow> registry option \<Rightarrow> chain option \<Rightarrow> 'x option \<Rightarrow> chain option" where
  "builder_BuildResolver c r prev x =
     Some (resolver_New [Some namerStrategy, Some (registryStrategy r), Some reflectStrategy])"

definition builder_New :: "range_order \<Rightarrow> (registry, chain, 'x) Builder" where
  "builder_New ord =
     \<lparr>BuildRegistry = builder_BuildRegistry ord, BuildResolver = builder_BuildResolver\<rparr>"

section \<open>Global snapshot (config/config.go, package rfx)\<close>

text \<open>
  The \<^verbatim>\<open>state\<close> struct behind the atomic pointer \<^verbatim>\<open>st\<close>. The builder field is never nil:
  \<^verbatim>\<open>init\<close> stores \<^verbatim>\<open>builder.New()\<close>, and \<^verbatim>\<open>SetBuilder\<close> and \<^verbatim>\<open>SetAll\<close> keep the old builder
  when they are given nil.
\<close>

record ('reg, 'res, 'x) state =
  cfg :: Config
  ext :: "'x option"
  reg :: "'reg option"
  res :: "'res option"
  bld :: "('reg, 'res, 'x) Builder"
  preg :: bool
  pres :: bool

text \<open>
  A writer ends in one of three ways: it panics before \<^verbatim>\<open>st.Store\<close>, it returns before
  \<^verbatim>\<open>st.Store\<close>, or it stores a new snapshot. The snapshot that is current after the call
  is \<open>current_after\<close>.
\<close>

datatype 'a outcome = Panic error | Unchanged | Stored 'a

fun current_after :: "'a \<Rightarrow> 'a outcome \<Rightarrow> 'a" where
  "current_after old (Panic e) = old"
| "current_after old Unchanged = old"
| "current_after old (Stored s) = s"

text \<open>\<^verbatim>\<open>init\<close>, for the builder \<open>b\<close> that \<^verbatim>\<open>builder.New()\<close> returns.\<close>

definition init :: "('reg, 'res, 'x) Builder \<Rightarrow> ('reg, 'res, 'x) state" where
  "init b =
     (let c = DefaultConfig;
          r = BuildRegistry b c None None;
          rs = BuildResolver b c r None None
      in \<lparr>cfg = c, ext = None, reg = r, res = rs, bld = b, preg = False, pres = False\<rparr>)"

definition SetAll ::
  "Config option \<Rightarrow> 'x option \<Rightarrow> 'reg option \<Rightarrow> 'res option \<Rightarrow> ('reg, 'res, 'x) Builder option \<Rightarrow>
   ('reg, 'res, 'x) state \<Rightarrow> ('reg, 'res, 'x) state outcome" where
  "SetAll c x r rs b old =
     (let ncfg = (case c of None \<Rightarrow> cfg old | Some c' \<Rightarrow> c');
          next = x;
          nbld = (case b of None \<Rightarrow> bld old | Some b' \<Rightarrow> b');
          nreg = (if r = None then BuildRegistry nbld ncfg (reg old) next else r);
          npreg = (r \<noteq> None);
          nres = (if rs = None then BuildResolver nbld ncfg nreg (res old) next else rs);
          npres = (rs \<noteq> None)
      in if nreg = None then Panic ErrNilRegistry
         else if nres = None then Panic ErrNilResolver
         else Stored \<lparr>cfg = ncfg, ext = next, reg = nreg, res = nres, bld = nbld,
                      preg = npreg, pres = npres\<rparr>)"

definition SetConfig :: "Config \<Rightarrow> ('reg, 'res, 'x) state \<Rightarrow> ('reg, 'res, 'x) state outcome" where
  "SetConfig c old =
     (let b = bld old;
          nreg = (if \<not> preg old then BuildRegistry b c (reg old) (ext old) else reg old);
          nres = (if \<not> pres old then BuildResolver b c nreg (res old) (ext old) else res old)
      in if nreg = None then Panic ErrNilRegistry
         else if nres = None then Panic ErrNilResolver
         else Stored \<lparr>cfg = c, ext = ext old, reg = nreg, res = nres, bld = b,
                      preg = preg old, pres = pres old\<rparr>)"

definition SetRegistry :: "'reg option \<Rightarrow> ('reg, 'res, 'x) state \<Rightarrow> ('reg, 'res, 'x) state outcome" where
  "SetRegistry r old =
     (if r = None then Unchanged
      else
        let b = bld old;
            nres = (if \<not> pres old then BuildResolver b (cfg old) r (res old) (ext old) else res old)
        in if nres = None then Panic ErrNilResolver
           else Stored \<lparr>cfg = cfg old, ext = ext old, reg = r, res = nres, bld = b,
                        preg = True, pres = pres old\<rparr>)"

definition SetResolver :: "'res option \<Rightarrow> ('reg, 'res, 'x) state \<Rightarrow> ('reg, 'res, 'x) state outcome" where
  "SetResolver rs old =
     (if rs = None then Unchanged
      else Stored \<lparr>cfg = cfg old, ext = ext old, reg = reg old, res = rs, bld = bld old,
                   preg = preg old, pres = True\<rparr>)"

definition SetBuilder ::
  "('reg, 'res, 'x) Builder option \<Rightarrow> ('reg, 'res, 'x) state \<Rightarrow> ('reg, 'res, 'x) state outcome" where
  "SetBuilder bo old =
     (case bo of
        None \<Rightarrow> Unchanged
      | Some b \<Rightarrow>
          let nreg = (if \<not> preg old then BuildRegistry b (cfg old) (reg old) (ext old) else reg old);
              nres = (if \<not> pres old then BuildResolver b (cfg old) nreg (res old) (ext old)
                      else res old)
          in if nreg = None then Panic ErrNilRegistry
             else if nres = None then Panic ErrNilResolver
             else Stored \<lparr>cfg = cfg old, ext = ext old, reg = nreg, res = nres, bld = b,
                          preg = preg old, pres = pres old\<rparr>)"

definition SetExt :: "'x option \<Rightarrow> ('reg, 'res, 'x) state \<Rightarrow> ('reg, 'res, 'x) state outcome" where
  "SetExt x old =
     (let b = bld old;
          nreg = (if \<not> preg old then BuildRegistry b (cfg old) (reg old) x else reg old);
          nres = (if \<not> pres old then BuildResolver b (cfg old) nreg (res old) x else res old)
      in if nreg = None then Panic ErrNilRegistry
         else if nres = None then Panic ErrNilResolver
         else Stored \<lparr>cfg = cfg old, ext = x, reg = nreg, res = nres, bld = b,
                      preg = preg old, pres = pres old\<rparr>)"

definition PinRegistry :: "('reg, 'res, 'x) state \<Rightarrow> ('reg, 'res, 'x) state outcome" where
  "PinRegistry old =
     Stored \<lparr>cfg = cfg old, ext = ext old, reg = reg old, res = res old, bld = bld old,
             preg = True, pres = pres old\<rparr>"

definition UnpinRegistry :: "('reg, 'res, 'x) state \<Rightarrow> ('reg, 'res, 'x) state outcome" where
  "UnpinRegistry old =
     Stored \<lparr>cfg = cfg old, ext = ext old, reg = reg old, res = res old, bld = bld old,
             preg = False, pres = pres old\<rparr>"

definition PinResolver :: "('reg, 'res, 'x) state \<Rightarrow> ('reg, 'res, 'x) state outcome" where
  "PinResolver old =
     Stored \<lparr>cfg = cfg old, ext = ext old, reg = reg old, res = res old, bld = bld old,
             preg = preg old, pres = True\<rparr>"

definition UnpinResolver :: "('reg, 'res, 'x) state \<Rightarrow> ('reg, 'res, 'x) state outcome" where
  "UnpinResolver old =
     Stored \<lparr>cfg = cfg old, ext = ext old, reg = reg old, res = res old, bld = bld old,
             preg = preg old, pres = False\<rparr>"

subsection \<open>Runs of the state machine\<close>

text \<open>The writers of the package, as one type of calls, and the call of each.\<close>

datatype ('reg, 'res, 'x) call =
    CallSetAll "Config option" "'x option" "'reg option" "'res option"
      "('reg, 'res, 'x) Builder option"
  | CallSetConfig Config
  | CallSetRegistry "'reg option"
  | CallSetResolver "'res option"
  | CallSetBuilder "('reg, 'res, 'x) Builder option"
  | CallSetExt "'x option"
  | CallPinRegistry
  | CallUnpinRegistry
  | CallPinResolver
  | CallUnpinResolver

fun exec :: "('reg, 'res, 'x) call \<Rightarrow> ('reg, 'res, 'x) state \<Rightarrow> ('reg, 'res, 'x) state outcome" where
  "exec (CallSetAll c x r rs b) s = SetAll c x r rs b s"
| "exec (CallSetConfig c) s = SetConfig c s"
| "exec (CallSetRegistry r) s = SetRegistry r s"
| "exec (CallSetResolver rs) s = SetResolver rs s"
| "exec (CallSetBuilder b) s = SetBuilder b s"
| "exec (CallSetExt x) s = SetExt x s"
| "exec CallPinRegistry s = PinRegistry s"
| "exec CallUnpinRegistry s = UnpinRegistry s"
| "exec CallPinResolver s = PinResolver s"
| "exec CallUnpinResolver s = UnpinResolver s"

text \<open>
  The snapshots published along a run that starts with \<^verbatim>\<open>init\<close> (for the builder \<open>b0\<close>
  of \<^verbatim>\<open>builder.New()\<close>) and makes only calls from the set \<open>W\<close>. A call that panics or
  returns early publishes nothing.
\<close>

inductive published ::
  "('reg, 'res, 'x) call set \<Rightarrow> ('reg, 'res, 'x) Builder \<Rightarrow> ('reg, 'res, 'x) state \<Rightarrow> bool"
  for W :: "('reg, 'res, 'x) call set" and b0 :: "('reg, 'res, 'x) Builder" where
  published_init: "published W b0 (init b0)"
| published_write: "published W b0 s \<Longrightarrow> w \<in> W \<Longrightarrow> exec w s = Stored s' \<Longrightarrow> published W b0 s'"

text \<open>
  The resolver of a snapshot is \<^emph>\<open>built here\<close> when it is what the snapshot's builder
  returns for the snapshot's config and registry (for some previous resolver and some
  extension payload). The invariant asks this of every snapshot whose resolver is not
  pinned.
\<close>

definition built_here :: "('reg, 'res, 'x) state \<Rightarrow> bool" where
  "built_here s \<longleftrightarrow> (\<exists>prev x. res s = BuildResolver (bld s) (cfg s) (reg s) prev x)"

definition unpinned_resolver_built_here :: "('reg, 'res, 'x) state \<Rightarrow> bool" where
  "unpinned_resolver_built_here s \<longleftrightarrow> (\<not> pres s \<longrightarrow> built_here s)"

text \<open>
  A run of the default setup: \<^verbatim>\<open>init\<close>, then \<^verbatim>\<open>SetResolver(resolver.New())\<close> (a chain with no
  strategy), then \<^verbatim>\<open>UnpinResolver()\<close>, then \<^verbatim>\<open>SetConfig\<close>. The default builder of the run
  ranges in the order \<open>stored_order\<close>; the runs below only ever migrate an empty registry,
  where every order lists nothing.
\<close>

definition stored_order :: range_order where
  "stored_order al = al"

definition state0 :: "(registry, chain, unit) state" where
  "state0 = init (builder_New stored_order)"

definition state_injected :: "(registry, chain, unit) state" where
  "state_injected = current_after state0 (SetResolver (Some (resolver_New [])) state0)"

definition state_unpinned :: "(registry, chain, unit) state" where
  "state_unpinned = current_after state_injected (UnpinResolver state_injected)"

section \<open>Example inputs\<close>

text \<open>The configs of the tests: the default, a preference for the key, and small budgets.\<close>

definition cfg_prefer_elem :: Config where
  "cfg_prefer_elem = \<lparr>IncludeBuiltins = True, MaxUnwrap = 8, MapPreferElem = True\<rparr>"

definition cfg_prefer_key :: Config where
  "cfg_prefer_key = \<lparr>IncludeBuiltins = True, MaxUnwrap = 8, MapPreferElem = False\<rparr>"

definition cfg_unwrap_1 :: Config where
  "cfg_unwrap_1 = \<lparr>IncludeBuiltins = True, MaxUnwrap = 1, MapPreferElem = True\<rparr>"

definition cfg_unwrap_2 :: Config where
  "cfg_unwrap_2 = \<lparr>IncludeBuiltins = True, MaxUnwrap = 2, MapPreferElem = True\<rparr>"

definition cfg_unwrap_65537 :: Config where
  "cfg_unwrap_65537 = \<lparr>IncludeBuiltins = True, MaxUnwrap = 65537, MapPreferElem = True\<rparr>"

text \<open>
  The types of the tests: a declared struct \<^verbatim>\<open>A\<close> and \<^verbatim>\<open>T1\<close>, the builtin \<^verbatim>\<open>string\<close>, an
  anonymous struct, and \<^verbatim>\<open>**A\<close>.
\<close>

definition type_A :: rtype where
  "type_A = Plain ''A'' ''dirpx.dev/rfx/strategy''"

definition type_T1 :: rtype where
  "type_T1 = Plain ''T1'' ''dirpx.dev/rfx/registry''"

definition type_string :: rtype where
  "type_string = Plain ''string'' []"

definition type_anon :: rtype where
  "type_anon = Plain [] []"

definition type_ptr_ptr_A :: rtype where
  "type_ptr_ptr_A = wrap [Ptr, Ptr] type_A"

text \<open>A registry with budget 1 that holds one entry, for \<^verbatim>\<open>T1\<close>.\<close>

definition reg_T1 :: registry where
  "reg_T1 = snd (Register (Some type_T1) ''domain.T1'' (registry_New cfg_unwrap_1))"

text \<open>
  Runs of the default setup: after \<^verbatim>\<open>SetRegistry(reg_T1)\<close>, and after a following
  \<^verbatim>\<open>SetConfig\<close>; the same two calls after the resolver was injected; and \<^verbatim>\<open>SetConfig\<close>
  alone.
\<close>

definition state_pinned_registry :: "(registry, chain, unit) state" where
  "state_pinned_registry = current_after state0 (SetRegistry (Some reg_T1) state0)"

definition state_pinned_reconfigured :: "(registry, chain, unit) state" where
  "state_pinned_reconfigured =
     current_after state_pinned_registry (SetConfig cfg_prefer_key state_pinned_registry)"



definition state_unpinned_reconfigured :: "(registry, chain, unit) state" where
  "state_unpinned_reconfigured =
     current_after state_unpinned (SetConfig cfg_prefer_key state_unpinned)"

definition state_reconfigured :: "(registry, chain, unit) state" where
  "state_reconfigured = current_after state0 (SetConfig cfg_prefer_key state0)"

text \<open>
  Two broken builders, and a snapshot that holds the first: \<^verbatim>\<open>SetAll\<close> with an explicit
  registry and resolver installs it, \<^verbatim>\<open>UnpinRegistry\<close> then exposes the registry to it.
\<close>

definition nil_registry_builder :: "(registry, chain, unit) Builder" where
  "nil_registry_builder =
     \<lparr>BuildRegistry = (\<lambda>c r x. None), BuildResolver = builder_BuildResolver\<rparr>"

definition nil_resolver_builder :: "(registry, chain, unit) Builder" where
  "nil_resolver_builder =
     \<lparr>BuildRegistry = builder_BuildRegistry stored_order,
      BuildResolver = (\<lambda>c r rs x. None)\<rparr>"

definition state_broken_builder :: "(registry, chain, unit) state" where
  "state_broken_builder =
     current_after state0
       (SetAll None None (Some reg_T1) (Some (resolver_New [])) (Some nil_registry_builder) state0)"

definition state_broken_unpinned :: "(registry, chain, unit) state" where
  "state_broken_unpinned = current_after state_broken_builder (UnpinRegistry state_broken_builder)"

section \<open>Normalize: depth of wrapping\<close>

lemma normalize_loop_wrap:
  assumes "n \<noteq> []" and "i \<le> mx"
  shows "normalize_loop i mx pe (Some (wrap ks (Plain n p))) =
     (if int (length ks) \<le> mx - i then Inr (Plain n p) else Inl ErrReflectTypeNotNamed)"
  using assms
proof (induction ks arbitrary: i)
  case Nil
  then show ?case
    by (subst normalize_loop.simps) (simp add: normalize_end_def)
next
  case (Cons k ks)
  show ?case
  proof (cases "i < mx")
    case True
    then have "i + 1 \<le> mx" by simp
    from Cons.IH [OF Cons.prems(1) this] True show ?thesis
      by (subst normalize_loop.simps) auto
  next
    case False
    with Cons.prems have "i = mx" by simp
    then show ?thesis
      by (subst normalize_loop.simps) (simp add: normalize_end_def)
  qed
qed

text \<open>
  Claim C2. Let \<open>T\<close> be a named type that is no container (\<open>Plain n p\<close> with a non-empty
  name), wrapped in \<open>length ks\<close> pointer, slice, array or channel type literals, and let
  the config have \<^verbatim>\<open>MaxUnwrap\<close> at least 1. \<^verbatim>\<open>Normalize\<close> returns \<open>T\<close> when the depth is at
  most \<^verbatim>\<open>MaxUnwrap\<close>, and fails with \<^verbatim>\<open>ErrReflectTypeNotNamed\<close> when it is larger.
\<close>

theorem Normalize_wrap_depth:
  assumes "n \<noteq> []" and "1 \<le> sint (MaxUnwrap c)"
  shows "Normalize (Some (wrap ks (Plain n p))) c =
     (if int (length ks) \<le> sint (MaxUnwrap c) then Inr (Plain n p)
      else Inl ErrReflectTypeNotNamed)"
  using assms by (simp add: Normalize_def normalize_loop_wrap)

theorem Normalize_wrap_depth_witness:
  "''A'' \<noteq> [] \<and> 1 \<le> sint (MaxUnwrap cfg_unwrap_2)
   \<and> Normalize (Some (wrap [Ptr, Slice] (Plain ''A'' ''dirpx.dev/rfx/strategy''))) cfg_unwrap_2
       = Inr (Plain ''A'' ''dirpx.dev/rfx/strategy'')
   \<and> Normalize (Some (wrap [Ptr, Slice, Chan] (Plain ''A'' ''dirpx.dev/rfx/strategy''))) cfg_unwrap_2
       = Inl ErrReflectTypeNotNamed"
  using Normalize_wrap_depth [of "''A''" cfg_unwrap_2 "[Ptr, Slice]" "''dirpx.dev/rfx/strategy''"]
    Normalize_wrap_depth [of "''A''" cfg_unwrap_2 "[Ptr, Slice, Chan]" "''dirpx.dev/rfx/strategy''"]
  by (simp add: cfg_unwrap_2_def)

section \<open>Normalize: maps\<close>

lemma sint_effective_pos:
  "0 < sint (if sint (MaxUnwrap c) \<le> 0 then DefaultMaxUnwrap else MaxUnwrap c)"
  by (simp add: DefaultMaxUnwrap_def)

lemma normalize_loop_map_first:
  assumes "0 < mx"
  shows "normalize_loop 0 mx pe (Some (MapOf n p K V)) =
     (if pe then
        (if Name V \<noteq> [] then Inr V else if Name K \<noteq> [] then Inr K
         else normalize_loop 1 mx pe (Some V))
      else
        (if Name K \<noteq> [] then Inr K else if Name V \<noteq> [] then Inr V
         else normalize_loop 1 mx pe (Some V)))"
  using assms by (subst normalize_loop.simps) simp

lemma Normalize_map_unfold:
  "Normalize (Some (MapOf n p K V)) c =
     (if MapPreferElem c then
        (if Name V \<noteq> [] then Inr V else if Name K \<noteq> [] then Inr K
         else normalize_loop 1
                (sint (if sint (MaxUnwrap c) \<le> 0 then DefaultMaxUnwrap else MaxUnwrap c))
                (MapPreferElem c) (Some V))
      else
        (if Name K \<noteq> [] then Inr K else if Name V \<noteq> [] then Inr V
         else normalize_loop 1
                (sint (if sint (MaxUnwrap c) \<le> 0 then DefaultMaxUnwrap else MaxUnwrap c))
                (MapPreferElem c) (Some V)))"
  unfolding Normalize_def Let_def
  by (simp only: normalize_loop_map_first [OF sint_effective_pos] option.simps if_False)

lemma normalize_loop_shift:
  "normalize_loop (i + 1) (mx + 1) pe t = normalize_loop i mx pe t"
proof (induction i mx pe t rule: normalize_loop.induct)
  case (1 i mx pe t)
  show ?case
  proof (cases t)
    case None
    then show ?thesis
      by (subst normalize_loop.simps, subst (2) normalize_loop.simps) simp
  next
    case (Some ty)
    show ?thesis
    proof (cases "i < mx")
      case False
      with Some show ?thesis
        by (subst normalize_loop.simps, subst (2) normalize_loop.simps) simp
    next
      case True
      show ?thesis
      proof (cases ty)
        case (Plain n p)
        with Some True show ?thesis
          by (subst normalize_loop.simps, subst (2) normalize_loop.simps) simp
      next
        case (Container k n p e)
        with Some True "1.IH"(1) [OF Some True Container] show ?thesis
          by (subst normalize_loop.simps, subst (2) normalize_loop.simps) simp
      next
        case (MapOf n p kt et)
        show ?thesis
        proof (cases "Name et = [] \<and> Name kt = []")
          case False
          with Some True MapOf show ?thesis
            by (subst normalize_loop.simps, subst (2) normalize_loop.simps) auto
        next
          case unnamed: True
          show ?thesis
          proof (cases pe)
            case True
            with "1.IH"(2) [OF Some \<open>i < mx\<close> MapOf True] unnamed Some \<open>i < mx\<close> MapOf
            show ?thesis
              by (subst normalize_loop.simps, subst (2) normalize_loop.simps) simp
          next
            case False
            with "1.IH"(3) [OF Some \<open>i < mx\<close> MapOf False] unnamed Some \<open>i < mx\<close> MapOf
            show ?thesis
              by (subst normalize_loop.simps, subst (2) normalize_loop.simps) simp
          qed
        qed
      qed
    qed
  qed
qed

lemma Normalize_positive_budget:
  "1 \<le> sint (MaxUnwrap c') \<Longrightarrow>
   Normalize (Some V) c' = normalize_loop 0 (sint (MaxUnwrap c')) (MapPreferElem c') (Some V)"
  by (simp add: Normalize_def)

lemma Normalize_map_element:
  assumes "Name K = []" and "Name V = []" and "MapPreferElem c' = MapPreferElem c"
    and "1 \<le> sint (MaxUnwrap c')"
    and "sint (MaxUnwrap c') + 1 =
         sint (if sint (MaxUnwrap c) \<le> 0 then DefaultMaxUnwrap else MaxUnwrap c)"
  shows "Normalize (Some (MapOf n p K V)) c = Normalize (Some V) c'"
proof -
  have "Normalize (Some (MapOf n p K V)) c =
      normalize_loop (0 + 1) (sint (MaxUnwrap c') + 1) (MapPreferElem c') (Some V)"
    using assms(1,2,3) by (simp add: Normalize_map_unfold assms(5))
  also have "\<dots> = normalize_loop 0 (sint (MaxUnwrap c')) (MapPreferElem c') (Some V)"
    by (rule normalize_loop_shift)
  also have "\<dots> = Normalize (Some V) c'"
    using assms(4) by (simp add: Normalize_positive_budget)
  finally show ?thesis .
qed

lemma Normalize_map_budget_1:
  assumes "Name K = []" and "Name V = []"
    and "sint (if sint (MaxUnwrap c) \<le> 0 then DefaultMaxUnwrap else MaxUnwrap c) = 1"
  shows "Normalize (Some (MapOf n p K V)) c = Inl ErrReflectTypeNotNamed"
proof -
  have "Normalize (Some (MapOf n p K V)) c = normalize_loop 1 1 (MapPreferElem c) (Some V)"
    using assms by (simp add: Normalize_map_unfold)
  also have "\<dots> = Inl ErrReflectTypeNotNamed"
    using assms(2) by (subst normalize_loop.simps) (simp add: normalize_end_def)
  finally show ?thesis .
qed

lemma Normalize_map_wrapped_element:
  assumes "Name K = []" and "n' \<noteq> []"
  shows "Normalize (Some (MapOf n p K (wrap (k # ks) (Plain n' p')))) c =
     (if int (length ks) + 2 \<le>
           sint (if sint (MaxUnwrap c) \<le> 0 then DefaultMaxUnwrap else MaxUnwrap c)
      then Inr (Plain n' p') else Inl ErrReflectTypeNotNamed)"
proof -
  let ?mx = "sint (if sint (MaxUnwrap c) \<le> 0 then DefaultMaxUnwrap else MaxUnwrap c)"
  have pos: "1 \<le> ?mx"
    using sint_effective_pos [of c] by simp
  have "Normalize (Some (MapOf n p K (wrap (k # ks) (Plain n' p')))) c =
      normalize_loop 1 ?mx (MapPreferElem c) (Some (wrap (k # ks) (Plain n' p')))"
    using assms(1) by (simp add: Normalize_map_unfold)
  also have "\<dots> =
      (if int (length (k # ks)) \<le> ?mx - 1 then Inr (Plain n' p') else Inl ErrReflectTypeNotNamed)"
    using assms(2) pos by (rule normalize_loop_wrap)
  finally show ?thesis by (simp add: algebra_simps)
qed

text \<open>
  Claim C3. For a map type with key \<open>K\<close> and element \<open>V\<close> (declared or a type literal)
  and every config:
  \<^item> when both sides are named, \<^verbatim>\<open>Normalize\<close> returns \<open>V\<close> under \<^verbatim>\<open>MapPreferElem\<close> and \<open>K\<close>
    otherwise;
  \<^item> when exactly one side is named, it returns that side, whatever the flag says;
  \<^item> when neither side is named, the result is that of \<^verbatim>\<open>Normalize\<close> on the element \<open>V\<close>
    with the budget that is left, one less than the budget in force (the default 8 when
    \<^verbatim>\<open>MaxUnwrap\<close> is not positive), and it is \<^verbatim>\<open>ErrReflectTypeNotNamed\<close> when the budget in
    force is 1. So for an unnamed key, named inside or not, and an element that wraps a
    named type \<open>T\<close> in \<open>length ks + 1\<close> type literals, the result is \<open>T\<close> when the budget in
    force is at least \<open>length ks + 2\<close>, and \<^verbatim>\<open>ErrReflectTypeNotNamed\<close> otherwise: the key
    plays no part.
\<close>

theorem Normalize_map:
  "(Name K \<noteq> [] \<and> Name V \<noteq> [] \<longrightarrow>
      Normalize (Some (MapOf n p K V)) c = Inr (if MapPreferElem c then V else K))
   \<and> (Name K \<noteq> [] \<and> Name V = [] \<longrightarrow> Normalize (Some (MapOf n p K V)) c = Inr K)
   \<and> (Name K = [] \<and> Name V \<noteq> [] \<longrightarrow> Normalize (Some (MapOf n p K V)) c = Inr V)
   \<and> (Name K = [] \<and> Name V = [] \<and> MapPreferElem c' = MapPreferElem c
        \<and> 1 \<le> sint (MaxUnwrap c')
        \<and> sint (MaxUnwrap c') + 1 =
            sint (if sint (MaxUnwrap c) \<le> 0 then DefaultMaxUnwrap else MaxUnwrap c) \<longrightarrow>
      Normalize (Some (MapOf n p K V)) c = Normalize (Some V) c')
   \<and> (Name K = [] \<and> Name V = []
        \<and> sint (if sint (MaxUnwrap c) \<le> 0 then DefaultMaxUnwrap else MaxUnwrap c) = 1 \<longrightarrow>
      Normalize (Some (MapOf n p K V)) c = Inl ErrReflectTypeNotNamed)
   \<and> (Name K = [] \<and> n' \<noteq> [] \<longrightarrow>
      Normalize (Some (MapOf n p K (wrap (k # ks) (Plain n' p')))) c =
      (if int (length ks) + 2 \<le>
            sint (if sint (MaxUnwrap c) \<le> 0 then DefaultMaxUnwrap else MaxUnwrap c)
       then Inr (Plain n' p') else Inl ErrReflectTypeNotNamed))"
  using Normalize_map_element [of K V c' c n p] Normalize_map_budget_1 [of K V c n p]
    Normalize_map_wrapped_element [of K n' n p k ks p' c]
  by (simp add: Normalize_map_unfold)

theorem Normalize_map_witness:
  "Normalize (Some (MapOf [] [] type_string type_A)) cfg_prefer_elem = Inr type_A
   \<and> Normalize (Some (MapOf [] [] type_string type_A)) cfg_prefer_key = Inr type_string
   \<and> Normalize (Some (MapOf [] [] type_string type_anon)) cfg_prefer_elem = Inr type_string
   \<and> Normalize (Some (MapOf [] [] type_anon type_A)) cfg_prefer_key = Inr type_A
   \<and> Normalize (Some (MapOf [] [] (wrap [Ptr] type_T1) (wrap [Slice] type_A))) cfg_unwrap_2
       = Normalize (Some (wrap [Slice] type_A)) cfg_unwrap_1
   \<and> Normalize (Some (MapOf [] [] (wrap [Ptr] type_T1) (wrap [Slice] type_A))) cfg_unwrap_1
       = Inl ErrReflectTypeNotNamed
   \<and> Normalize (Some (MapOf [] [] (wrap [Ptr] type_T1) (wrap [Slice] type_A))) cfg_prefer_key
       = Inr type_A
   \<and> Normalize (Some (MapOf [] [] (wrap [Ptr] type_T1) (wrap [Slice, Ptr] type_A))) cfg_unwrap_2
       = Inl ErrReflectTypeNotNamed"
proof -
  have both_e: "Normalize (Some (MapOf [] [] type_string type_A)) cfg_prefer_elem = Inr type_A"
    using Normalize_map [of type_string type_A "[]" "[]" cfg_prefer_elem]
    by (simp add: cfg_prefer_elem_def type_string_def type_A_def)
  have both_k: "Normalize (Some (MapOf [] [] type_string type_A)) cfg_prefer_key = Inr type_string"
    using Normalize_map [of type_string type_A "[]" "[]" cfg_prefer_key]
    by (simp add: cfg_prefer_key_def type_string_def type_A_def)
  have key_only: "Normalize (Some (MapOf [] [] type_string type_anon)) cfg_prefer_elem
      = Inr type_string"
    using Normalize_map [of type_string type_anon "[]" "[]" cfg_prefer_elem]
    by (simp add: type_string_def type_anon_def)
  have elem_only: "Normalize (Some (MapOf [] [] type_anon type_A)) cfg_prefer_key = Inr type_A"
    using Normalize_map [of type_anon type_A "[]" "[]" cfg_prefer_key]
    by (simp add: type_anon_def type_A_def)
  have rest: "Normalize (Some (MapOf [] [] (wrap [Ptr] type_T1) (wrap [Slice] type_A))) cfg_unwrap_2
      = Normalize (Some (wrap [Slice] type_A)) cfg_unwrap_1"
    using Normalize_map [of "wrap [Ptr] type_T1" "wrap [Slice] type_A" "[]" "[]" cfg_unwrap_2
        cfg_unwrap_1]
    by (simp add: cfg_unwrap_1_def cfg_unwrap_2_def)
  have one: "Normalize (Some (MapOf [] [] (wrap [Ptr] type_T1) (wrap [Slice] type_A))) cfg_unwrap_1
      = Inl ErrReflectTypeNotNamed"
    using Normalize_map [of "wrap [Ptr] type_T1" "wrap [Slice] type_A" "[]" "[]" cfg_unwrap_1]
    by (simp add: cfg_unwrap_1_def)
  have deep: "Normalize (Some (MapOf [] [] (wrap [Ptr] type_T1) (wrap [Slice] type_A)))
      cfg_prefer_key = Inr type_A"
    using Normalize_map [where K = "wrap [Ptr] type_T1" and n' = "''A''" and n = "[]"
        and p = "[]" and k = Slice and ks = "[]" and p' = "''dirpx.dev/rfx/strategy''"
        and c = cfg_prefer_key]
    by (simp add: cfg_prefer_key_def type_A_def)
  have short: "Normalize (Some (MapOf [] [] (wrap [Ptr] type_T1) (wrap [Slice, Ptr] type_A)))
      cfg_unwrap_2 = Inl ErrReflectTypeNotNamed"
    using Normalize_map [where K = "wrap [Ptr] type_T1" and n' = "''A''" and n = "[]"
        and p = "[]" and k = Slice and ks = "[Ptr]" and p' = "''dirpx.dev/rfx/strategy''"
        and c = cfg_unwrap_2]
    by (simp add: cfg_unwrap_2_def type_A_def)
  from both_e both_k key_only elem_only rest one deep short show ?thesis by blast
qed

section \<open>Registry: registration and lookup\<close>













text \<open>
  Claim C9. When the descriptor does not normalize under the registry's config (it is
  nil, or anonymous, or too deeply wrapped for the budget), \<^verbatim>\<open>Lookup\<close> returns the empty
  name with \<^verbatim>\<open>false\<close>, no error, and the registry is as before.
\<close>

theorem Lookup_normalize_failure:
  assumes "Normalize t (reg_cfg r) = Inl e"
  shows "Lookup t r = (([], False), r)"
  using assms by (simp add: Lookup_def)

theorem Lookup_normalize_failure_witness:
  "Normalize None (reg_cfg reg_T1) = Inl ErrReflectNilType
   \<and> Lookup None reg_T1 = (([], False), reg_T1)
   \<and> Normalize (Some type_anon) (reg_cfg reg_T1) = Inl ErrReflectTypeNotNamed
   \<and> Lookup (Some type_anon) reg_T1 = (([], False), reg_T1)
   \<and> Normalize (Some (wrap [Ptr, Ptr] type_T1)) (reg_cfg reg_T1) = Inl ErrReflectTypeNotNamed
   \<and> Lookup (Some (wrap [Ptr, Ptr] type_T1)) reg_T1 = (([], False), reg_T1)
   \<and> Lookup (Some type_T1) reg_T1 = ((''domain.T1'', True), reg_T1)"
proof -
  have c: "reg_cfg reg_T1 = cfg_unwrap_1"
    by (simp add: reg_T1_def Register_def registry_New_def type_T1_def Normalize_def
        normalize_loop.simps Load_def Let_def cfg_unwrap_1_def)
  have n1: "Normalize None (reg_cfg reg_T1) = Inl ErrReflectNilType"
    by (simp add: Normalize_def)
  have n2: "Normalize (Some type_anon) (reg_cfg reg_T1) = Inl ErrReflectTypeNotNamed"
    by (simp add: c Normalize_def normalize_loop.simps type_anon_def cfg_unwrap_1_def)
  have n3: "Normalize (Some (wrap [Ptr, Ptr] type_T1)) (reg_cfg reg_T1) = Inl ErrReflectTypeNotNamed"
    by (simp add: c Normalize_def normalize_loop.simps normalize_end_def cfg_unwrap_1_def)
  have ok: "Lookup (Some type_T1) reg_T1 = ((''domain.T1'', True), reg_T1)"
    by (simp add: reg_T1_def Register_def registry_New_def type_T1_def Normalize_def
        normalize_loop.simps Load_def Store_def Lookup_def Let_def cfg_unwrap_1_def)
  show ?thesis
    using Lookup_normalize_failure [OF n1] Lookup_normalize_failure [OF n2]
      Lookup_normalize_failure [OF n3] n1 n2 n3 ok
    by simp
qed

section \<open>Reflective fallback: the memo key and the nil guard\<close>

lemma byType_miss:
  "cache \<lparr>ck_t = t, ck_includeBuiltin = IncludeBuiltins c, ck_maxUnwrap = ucast (MaxUnwrap c),
      ck_mapPreferElem = MapPreferElem c\<rparr> = None \<Longrightarrow>
   fst (byType t c cache) = direct_name t c"
  by (auto simp: byType_def direct_name_def Let_def split: sum.splits)

lemma Normalize_ptr_ptr_A_1:
  "Normalize (Some type_ptr_ptr_A) cfg_unwrap_1 = Inl ErrReflectTypeNotNamed"
  by (simp add: Normalize_def cfg_unwrap_1_def type_ptr_ptr_A_def type_A_def
      normalize_loop.simps normalize_end_def)

lemma Normalize_ptr_ptr_A_65537:
  "Normalize (Some type_ptr_ptr_A) cfg_unwrap_65537 = Inr type_A"
  by (simp add: Normalize_def cfg_unwrap_65537_def type_ptr_ptr_A_def type_A_def
      normalize_loop.simps normalize_end_def)

lemma direct_name_65537: "direct_name (Some type_ptr_ptr_A) cfg_unwrap_65537 = ''strategy.A''"
  by (simp add: direct_name_def Normalize_ptr_ptr_A_65537 type_A_def path_Base_def
      stripTypeParams_def Let_def)

text \<open>
  Claim C5. The key keeps only the low 16 bits of \<^verbatim>\<open>MaxUnwrap\<close>, so the budgets 1 and
  65537 share one cache entry. Starting from the empty cache, \<^verbatim>\<open>byType\<close> of \<^verbatim>\<open>**A\<close> under
  budget 1 stores the empty name (the budget is too small); \<^verbatim>\<open>byType\<close> of \<^verbatim>\<open>**A\<close> under budget
  65537 then returns that empty name, while normalizing and formatting under budget 65537
  gives \<^verbatim>\<open>strategy.A\<close>.
\<close>

theorem byType_truncated_key:
  "MaxUnwrap cfg_unwrap_1 \<noteq> MaxUnwrap cfg_unwrap_65537
   \<and> fst (byType (Some type_ptr_ptr_A) cfg_unwrap_1 Map.empty) = []
   \<and> fst (byType (Some type_ptr_ptr_A) cfg_unwrap_65537
        (snd (byType (Some type_ptr_ptr_A) cfg_unwrap_1 Map.empty))) = []
   \<and> direct_name (Some type_ptr_ptr_A) cfg_unwrap_65537 = ''strategy.A''"
proof -
  have k: "(ucast (65537 :: 64 word) :: 16 word) = 1" by simp
  have first: "byType (Some type_ptr_ptr_A) cfg_unwrap_1 Map.empty =
      ([], [\<lparr>ck_t = Some type_ptr_ptr_A, ck_includeBuiltin = True, ck_maxUnwrap = 1,
              ck_mapPreferElem = True\<rparr> \<mapsto> []])"
    by (simp add: byType_def Normalize_ptr_ptr_A_1) (simp add: cfg_unwrap_1_def)
  have second: "fst (byType (Some type_ptr_ptr_A) cfg_unwrap_65537
        [\<lparr>ck_t = Some type_ptr_ptr_A, ck_includeBuiltin = True, ck_maxUnwrap = 1,
              ck_mapPreferElem = True\<rparr> \<mapsto> []]) = []"
    by (simp add: byType_def cfg_unwrap_65537_def k)
  show ?thesis
    using first second direct_name_65537
    by (simp add: cfg_unwrap_1_def cfg_unwrap_65537_def)
qed









section \<open>Global snapshot: the example runs, evaluated\<close>

lemma state0_eq:
  "state0 = \<lparr>cfg = DefaultConfig, ext = None, reg = Some (registry_New DefaultConfig),
     res = Some (resolver_New [Some namerStrategy,
              Some (registryStrategy (Some (registry_New DefaultConfig))), Some reflectStrategy]),
     bld = builder_New stored_order, preg = False, pres = False\<rparr>"
  by (simp add: state0_def init_def Let_def builder_New_def builder_BuildRegistry_def
      builder_BuildResolver_def)

lemma state_pinned_registry_eq:
  "state_pinned_registry = \<lparr>cfg = DefaultConfig, ext = None, reg = Some reg_T1,
     res = Some (resolver_New [Some namerStrategy, Some (registryStrategy (Some reg_T1)),
              Some reflectStrategy]),
     bld = builder_New stored_order, preg = True, pres = False\<rparr>"
  by (simp add: state_pinned_registry_def state0_eq SetRegistry_def Let_def builder_New_def
      builder_BuildResolver_def)

lemma state_pinned_reconfigured_eq:
  "state_pinned_reconfigured = \<lparr>cfg = cfg_prefer_key, ext = None, reg = Some reg_T1,
     res = Some (resolver_New [Some namerStrategy, Some (registryStrategy (Some reg_T1)),
              Some reflectStrategy]),
     bld = builder_New stored_order, preg = True, pres = False\<rparr>"
  by (simp add: state_pinned_reconfigured_def state_pinned_registry_eq SetConfig_def Let_def
      builder_New_def builder_BuildResolver_def)

lemma state_reconfigured_eq:
  "state_reconfigured =
     \<lparr>cfg = cfg_prefer_key, ext = None, reg = Some (registry_New cfg_prefer_key),
      res = Some (resolver_New [Some namerStrategy,
              Some (registryStrategy (Some (registry_New cfg_prefer_key))), Some reflectStrategy]),
      bld = builder_New stored_order, preg = False, pres = False\<rparr>"
  by (simp add: state_reconfigured_def state0_eq SetConfig_def Let_def builder_New_def
      builder_BuildRegistry_def builder_BuildResolver_def Entries_def stored_order_def
      registry_New_def)

lemma state_broken_unpinned_eq:
  "state_broken_unpinned = \<lparr>cfg = DefaultConfig, ext = None, reg = Some reg_T1,
     res = Some (resolver_New []), bld = nil_registry_builder, preg = False, pres = True\<rparr>"
  by (simp add: state_broken_unpinned_def state_broken_builder_def state0_eq SetAll_def Let_def
      UnpinRegistry_def)

lemma SetResolver_state0:
  "SetResolver (Some (resolver_New [])) state0 = Stored state_injected"
  by (simp add: state_injected_def SetResolver_def)

lemma UnpinResolver_state_injected: "UnpinResolver state_injected = Stored state_unpinned"
  by (simp add: state_unpinned_def UnpinResolver_def)

lemma SetConfig_state0: "SetConfig cfg_prefer_key state0 = Stored state_reconfigured"
  by (simp add: state_reconfigured_def state0_eq SetConfig_def Let_def builder_New_def
      builder_BuildRegistry_def builder_BuildResolver_def)


lemma state_injected_eq:
  "state_injected = \<lparr>cfg = DefaultConfig, ext = None, reg = Some (registry_New DefaultConfig),
     res = Some (resolver_New []), bld = builder_New stored_order, preg = False, pres = True\<rparr>"
  by (simp add: state_injected_def state0_eq SetResolver_def)





lemma state_unpinned_eq:
  "state_unpinned = \<lparr>cfg = DefaultConfig, ext = None, reg = Some (registry_New DefaultConfig),
     res = Some (resolver_New []), bld = builder_New stored_order, preg = False, pres = False\<rparr>"
  by (simp add: state_unpinned_def state_injected_eq UnpinResolver_def)

lemma state_unpinned_reconfigured_eq:
  "state_unpinned_reconfigured =
     \<lparr>cfg = cfg_prefer_key, ext = None, reg = Some (registry_New cfg_prefer_key),
      res = Some (resolver_New [Some namerStrategy,
              Some (registryStrategy (Some (registry_New cfg_prefer_key))), Some reflectStrategy]),
      bld = builder_New stored_order, preg = False, pres = False\<rparr>"
  by (simp add: state_unpinned_reconfigured_def state_unpinned_eq SetConfig_def Let_def
      builder_New_def builder_BuildRegistry_def builder_BuildResolver_def Entries_def
      stored_order_def registry_New_def)

lemma SetConfig_state_unpinned:
  "SetConfig cfg_prefer_key state_unpinned = Stored state_unpinned_reconfigured"
  by (simp add: state_unpinned_reconfigured_def state_unpinned_eq SetConfig_def Let_def
      builder_New_def builder_BuildRegistry_def builder_BuildResolver_def)

section \<open>Global snapshot: the unpinned resolver\<close>

lemma built_hereI:
  "BuildResolver b c r prev x = rs \<Longrightarrow>
   built_here \<lparr>cfg = c, ext = e, reg = r, res = rs, bld = b, preg = p, pres = q\<rparr>"
  by (auto simp: built_here_def)

lemma SetAll_invariant:
  "SetAll c x r rs b s = Stored s' \<Longrightarrow> unpinned_resolver_built_here s'"
  by (auto simp: SetAll_def Let_def unpinned_resolver_built_here_def
      split: if_splits option.splits intro!: built_hereI)

lemma SetConfig_invariant:
  "SetConfig c s = Stored s' \<Longrightarrow> unpinned_resolver_built_here s'"
  by (auto simp: SetConfig_def Let_def unpinned_resolver_built_here_def
      split: if_splits intro!: built_hereI)

lemma SetRegistry_invariant:
  "SetRegistry r s = Stored s' \<Longrightarrow> unpinned_resolver_built_here s'"
  by (auto simp: SetRegistry_def Let_def unpinned_resolver_built_here_def
      split: if_splits intro!: built_hereI)

lemma SetResolver_invariant:
  "SetResolver rs s = Stored s' \<Longrightarrow> unpinned_resolver_built_here s'"
  by (auto simp: SetResolver_def unpinned_resolver_built_here_def split: if_splits)

lemma SetBuilder_invariant:
  "SetBuilder b s = Stored s' \<Longrightarrow> unpinned_resolver_built_here s'"
  by (auto simp: SetBuilder_def Let_def unpinned_resolver_built_here_def
      split: if_splits option.splits intro!: built_hereI)

lemma SetExt_invariant:
  "SetExt x s = Stored s' \<Longrightarrow> unpinned_resolver_built_here s'"
  by (auto simp: SetExt_def Let_def unpinned_resolver_built_here_def
      split: if_splits intro!: built_hereI)

lemma PinResolver_invariant:
  "PinResolver s = Stored s' \<Longrightarrow> unpinned_resolver_built_here s'"
  by (auto simp: PinResolver_def unpinned_resolver_built_here_def)

lemma PinRegistry_invariant:
  "unpinned_resolver_built_here s \<Longrightarrow> PinRegistry s = Stored s' \<Longrightarrow>
   unpinned_resolver_built_here s'"
  by (clarsimp simp: PinRegistry_def unpinned_resolver_built_here_def built_here_def)

lemma UnpinRegistry_invariant:
  "unpinned_resolver_built_here s \<Longrightarrow> UnpinRegistry s = Stored s' \<Longrightarrow>
   unpinned_resolver_built_here s'"
  by (clarsimp simp: UnpinRegistry_def unpinned_resolver_built_here_def built_here_def)

lemma exec_keeps_invariant:
  assumes "unpinned_resolver_built_here s" and "w \<noteq> CallUnpinResolver"
    and "exec w s = Stored s'"
  shows "unpinned_resolver_built_here s'"
  using assms
  by (cases w)
    (auto intro: SetAll_invariant SetConfig_invariant SetRegistry_invariant
      SetResolver_invariant SetBuilder_invariant SetExt_invariant PinResolver_invariant
      PinRegistry_invariant UnpinRegistry_invariant)

lemma init_invariant: "unpinned_resolver_built_here (init b0)"
  by (auto simp: init_def Let_def unpinned_resolver_built_here_def built_here_def)

lemma published_invariant:
  assumes "published W b0 s" and "CallUnpinResolver \<notin> W"
  shows "unpinned_resolver_built_here s"
  using assms
proof (induction rule: published.induct)
  case published_init
  show ?case by (rule init_invariant)
next
  case (published_write s w s')
  then have "w \<noteq> CallUnpinResolver" by auto
  with published_write show ?case by (blast intro: exec_keeps_invariant)
qed

lemma published_state_unpinned: "published UNIV (builder_New stored_order) state_unpinned"
proof -
  have 0: "published UNIV (builder_New stored_order) state0"
    unfolding state0_def by (rule published_init)
  have 1: "exec (CallSetResolver (Some (resolver_New []))) state0 = Stored state_injected"
    by (simp add: SetResolver_state0)
  have 2: "exec CallUnpinResolver state_injected = Stored state_unpinned"
    by (simp add: UnpinResolver_state_injected)
  from published_write [OF 0 _ 1] have "published UNIV (builder_New stored_order) state_injected" by simp
  from published_write [OF this _ 2] show ?thesis by simp
qed

lemma SetResolver_then_UnpinResolver:
  assumes "SetResolver (Some r) s = Stored s1" and "UnpinResolver s1 = Stored s2"
  shows "res s2 = Some r \<and> \<not> pres s2 \<and> cfg s2 = cfg s \<and> ext s2 = ext s \<and> reg s2 = reg s
    \<and> bld s2 = bld s \<and> preg s2 = preg s"
  using assms by (auto simp: SetResolver_def UnpinResolver_def)

text \<open>
  Claim C1, as stated, fails. The snapshot published by \<^verbatim>\<open>init\<close>,
  \<^verbatim>\<open>SetResolver(resolver.New())\<close>, \<^verbatim>\<open>UnpinResolver()\<close> has the pin flag cleared and holds the
  injected empty chain, which the default builder does not build for any arguments.
\<close>

theorem unpin_resolver_breaks_invariant:
  "published UNIV (builder_New stored_order) state_unpinned \<and> \<not> pres state_unpinned
   \<and> \<not> unpinned_resolver_built_here state_unpinned"
proof -
  have "\<not> pres state_unpinned"
    by (simp add: state_unpinned_def UnpinResolver_def)
  moreover have "\<not> built_here state_unpinned"
    by (simp add: built_here_def state_unpinned_def UnpinResolver_def state_injected_def
        SetResolver_def state0_eq builder_New_def builder_BuildResolver_def resolver_New_def)
  ultimately show ?thesis
    using published_state_unpinned by (simp add: unpinned_resolver_built_here_def)
qed

lemma SetConfig_rebuilds:
  "\<not> pres s \<Longrightarrow> SetConfig c s = Stored s' \<Longrightarrow>
   \<not> pres s' \<and> res s' = BuildResolver (bld s') (cfg s') (reg s') (res s) (ext s')"
  by (auto simp: SetConfig_def Let_def split: if_splits)

lemma SetExt_rebuilds:
  "\<not> pres s \<Longrightarrow> SetExt x s = Stored s' \<Longrightarrow>
   \<not> pres s' \<and> res s' = BuildResolver (bld s') (cfg s') (reg s') (res s) (ext s')"
  by (auto simp: SetExt_def Let_def split: if_splits)

lemma SetBuilder_rebuilds:
  "\<not> pres s \<Longrightarrow> SetBuilder bo s = Stored s' \<Longrightarrow>
   \<not> pres s' \<and> res s' = BuildResolver (bld s') (cfg s') (reg s') (res s) (ext s')"
  by (auto simp: SetBuilder_def Let_def split: if_splits option.splits)

lemma SetRegistry_rebuilds:
  "\<not> pres s \<Longrightarrow> SetRegistry ro s = Stored s' \<Longrightarrow>
   \<not> pres s' \<and> res s' = BuildResolver (bld s') (cfg s') (reg s') (res s) (ext s')"
  by (auto simp: SetRegistry_def Let_def split: if_splits)

lemma SetAll_rebuilds:
  "SetAll co xo ro None bo s = Stored s' \<Longrightarrow>
   \<not> pres s' \<and> res s' = BuildResolver (bld s') (cfg s') (reg s') (res s) (ext s')"
  by (auto simp: SetAll_def Let_def split: if_splits)

text \<open>
  Claim C1, amended. Along every run that does not call \<^verbatim>\<open>UnpinResolver\<close>, each published
  snapshot whose resolver is not pinned holds the resolver that its builder builds from
  its registry and config. \<^verbatim>\<open>UnpinResolver\<close> clears the flag and nothing else: after
  \<^verbatim>\<open>SetResolver(r)\<close> with a non-nil \<open>r\<close> and \<^verbatim>\<open>UnpinResolver()\<close> the snapshot holds \<open>r\<close>
  unpinned, with the config, extension, registry, builder and registry pin as before.
  From any snapshot whose resolver is not pinned, the next \<^verbatim>\<open>SetConfig\<close>, \<^verbatim>\<open>SetExt\<close>,
  \<^verbatim>\<open>SetBuilder\<close>, \<^verbatim>\<open>SetRegistry\<close>, or \<^verbatim>\<open>SetAll\<close> without a resolver, when it publishes, leaves
  the resolver unpinned and replaces it by the one that the builder of the published
  snapshot builds from the config and the registry of the published snapshot.
\<close>

theorem unpinned_resolver_built_unless_unpinned:
  "(published W b0 s \<and> CallUnpinResolver \<notin> W \<longrightarrow> unpinned_resolver_built_here s)
   \<and> (SetResolver (Some r) s = Stored s1 \<and> UnpinResolver s1 = Stored s2 \<longrightarrow>
        res s2 = Some r \<and> \<not> pres s2 \<and> cfg s2 = cfg s \<and> ext s2 = ext s \<and> reg s2 = reg s
        \<and> bld s2 = bld s \<and> preg s2 = preg s)
   \<and> (\<not> pres s
        \<and> (SetConfig c s = Stored s' \<or> SetExt x s = Stored s' \<or> SetBuilder bo s = Stored s'
           \<or> SetRegistry ro s = Stored s' \<or> SetAll co xo ro None bo s = Stored s') \<longrightarrow>
        \<not> pres s'
        \<and> res s' = BuildResolver (bld s') (cfg s') (reg s') (res s) (ext s'))"
  using published_invariant [of W b0 s] SetResolver_then_UnpinResolver [of r s s1 s2]
    SetConfig_rebuilds [of s c s'] SetExt_rebuilds [of s x s'] SetBuilder_rebuilds [of s bo s']
    SetRegistry_rebuilds [of s ro s'] SetAll_rebuilds [of co xo ro bo s s']
  by blast

theorem unpinned_resolver_built_unless_unpinned_witness:
  "published (UNIV - {CallUnpinResolver}) (builder_New stored_order) state_reconfigured
   \<and> CallUnpinResolver \<notin> UNIV - {CallUnpinResolver :: (registry, chain, unit) call}
   \<and> unpinned_resolver_built_here state_reconfigured
   \<and> SetResolver (Some (resolver_New [])) state0 = Stored state_injected
   \<and> UnpinResolver state_injected = Stored state_unpinned
   \<and> res state_unpinned = Some (resolver_New []) \<and> \<not> pres state_unpinned
   \<and> SetConfig cfg_prefer_key state_unpinned = Stored state_unpinned_reconfigured
   \<and> \<not> pres state_unpinned_reconfigured
   \<and> res state_unpinned_reconfigured =
       Some (resolver_New [Some namerStrategy,
               Some (registryStrategy (reg state_unpinned_reconfigured)), Some reflectStrategy])"
proof -
  have 0: "published (UNIV - {CallUnpinResolver}) (builder_New stored_order) state0"
    unfolding state0_def by (rule published_init)
  have 1: "exec (CallSetConfig cfg_prefer_key) state0 = Stored state_reconfigured"
    by (simp add: SetConfig_state0)
  have p: "published (UNIV - {CallUnpinResolver}) (builder_New stored_order) state_reconfigured"
    using published_write [OF 0 _ 1] by simp
  have n: "CallUnpinResolver \<notin> UNIV - {CallUnpinResolver :: (registry, chain, unit) call}"
    by simp
  have b: "BuildResolver (bld state_unpinned_reconfigured) (cfg state_unpinned_reconfigured)
        (reg state_unpinned_reconfigured) (res state_unpinned)
        (ext state_unpinned_reconfigured) =
      Some (resolver_New [Some namerStrategy,
               Some (registryStrategy (reg state_unpinned_reconfigured)), Some reflectStrategy])"
    by (simp add: state_unpinned_reconfigured_eq builder_New_def builder_BuildResolver_def)
  note t1 = unpinned_resolver_built_unless_unpinned [where W = "UNIV - {CallUnpinResolver}"
        and ?b0.0 = "builder_New stored_order" and s = state_reconfigured]
  note t2 = unpinned_resolver_built_unless_unpinned [where s = state0 and r = "resolver_New []"
        and ?s1.0 = state_injected and ?s2.0 = state_unpinned]
  note t3 = unpinned_resolver_built_unless_unpinned [where s = state_unpinned
        and c = cfg_prefer_key and s' = state_unpinned_reconfigured]
  have i1: "unpinned_resolver_built_here state_reconfigured"
    using t1 p n by blast
  have i2: "res state_unpinned = Some (resolver_New []) \<and> \<not> pres state_unpinned"
    using t2 SetResolver_state0 UnpinResolver_state_injected by blast
  have i3: "\<not> pres state_unpinned_reconfigured
      \<and> res state_unpinned_reconfigured =
          BuildResolver (bld state_unpinned_reconfigured) (cfg state_unpinned_reconfigured)
            (reg state_unpinned_reconfigured) (res state_unpinned)
            (ext state_unpinned_reconfigured)"
    using t3 i2 SetConfig_state_unpinned by blast
  from i1 i2 i3 b p n SetResolver_state0 UnpinResolver_state_injected SetConfig_state_unpinned
  show ?thesis by simp
qed

section \<open>Global snapshot: a pinned registry and SetConfig\<close>






section \<open>Global snapshot: nil layers\<close>

lemma SetConfig_Stored_non_nil:
  "SetConfig c s = Stored s' \<Longrightarrow> reg s' \<noteq> None \<and> res s' \<noteq> None"
  by (auto simp: SetConfig_def Let_def split: if_splits)

lemma SetBuilder_Stored_non_nil:
  "SetBuilder bo s = Stored s' \<Longrightarrow> reg s' \<noteq> None \<and> res s' \<noteq> None"
  by (auto simp: SetBuilder_def Let_def split: if_splits option.splits)

lemma SetExt_Stored_non_nil:
  "SetExt x s = Stored s' \<Longrightarrow> reg s' \<noteq> None \<and> res s' \<noteq> None"
  by (auto simp: SetExt_def Let_def split: if_splits)

lemma SetAll_Stored_non_nil:
  "SetAll co x r rs bo s = Stored s' \<Longrightarrow> reg s' \<noteq> None \<and> res s' \<noteq> None"
  by (auto simp: SetAll_def Let_def split: if_splits)

lemma SetConfig_nil_panics:
  "(\<not> preg s \<and> BuildRegistry (bld s) c (reg s) (ext s) = None \<longrightarrow>
      SetConfig c s = Panic ErrNilRegistry)
   \<and> (\<not> pres s \<and> BuildResolver (bld s) c
          (if preg s then reg s else BuildRegistry (bld s) c (reg s) (ext s))
          (res s) (ext s) = None \<longrightarrow>
      SetConfig c s = Panic ErrNilRegistry \<or> SetConfig c s = Panic ErrNilResolver)"
  by (auto simp: SetConfig_def Let_def)

lemma SetBuilder_nil_panics:
  "(\<not> preg s \<and> BuildRegistry b (cfg s) (reg s) (ext s) = None \<longrightarrow>
      SetBuilder (Some b) s = Panic ErrNilRegistry)
   \<and> (\<not> pres s \<and> BuildResolver b (cfg s)
          (if preg s then reg s else BuildRegistry b (cfg s) (reg s) (ext s))
          (res s) (ext s) = None \<longrightarrow>
      SetBuilder (Some b) s = Panic ErrNilRegistry \<or> SetBuilder (Some b) s = Panic ErrNilResolver)"
  by (auto simp: SetBuilder_def Let_def)

lemma SetExt_nil_panics:
  "(\<not> preg s \<and> BuildRegistry (bld s) (cfg s) (reg s) x = None \<longrightarrow>
      SetExt x s = Panic ErrNilRegistry)
   \<and> (\<not> pres s \<and> BuildResolver (bld s) (cfg s)
          (if preg s then reg s else BuildRegistry (bld s) (cfg s) (reg s) x) (res s) x = None \<longrightarrow>
      SetExt x s = Panic ErrNilRegistry \<or> SetExt x s = Panic ErrNilResolver)"
  by (auto simp: SetExt_def Let_def)

lemma SetAll_nil_panics:
  "(r = None \<and> BuildRegistry (case bo of None \<Rightarrow> bld s | Some b \<Rightarrow> b)
        (case co of None \<Rightarrow> cfg s | Some c \<Rightarrow> c) (reg s) x = None \<longrightarrow>
      SetAll co x r rs bo s = Panic ErrNilRegistry)
   \<and> (rs = None \<and> BuildResolver (case bo of None \<Rightarrow> bld s | Some b \<Rightarrow> b)
        (case co of None \<Rightarrow> cfg s | Some c \<Rightarrow> c)
        (if r = None then BuildRegistry (case bo of None \<Rightarrow> bld s | Some b \<Rightarrow> b)
             (case co of None \<Rightarrow> cfg s | Some c \<Rightarrow> c) (reg s) x else r) (res s) x = None \<longrightarrow>
      SetAll co x r rs bo s = Panic ErrNilRegistry \<or> SetAll co x r rs bo s = Panic ErrNilResolver)"
  by (auto simp: SetAll_def Let_def)

lemma exec_layers_non_nil:
  assumes "reg s \<noteq> None \<and> res s \<noteq> None" and "exec w s = Stored s'"
  shows "reg s' \<noteq> None \<and> res s' \<noteq> None"
proof (cases w)
  case (CallSetAll c x r rs b)
  with assms(2) show ?thesis by (simp add: SetAll_Stored_non_nil)
next
  case (CallSetConfig c)
  with assms(2) show ?thesis by (simp add: SetConfig_Stored_non_nil)
next
  case (CallSetRegistry r)
  with assms show ?thesis by (auto simp: SetRegistry_def Let_def split: if_splits)
next
  case (CallSetResolver rs)
  with assms show ?thesis by (auto simp: SetResolver_def split: if_splits)
next
  case (CallSetBuilder b)
  with assms(2) show ?thesis by (simp add: SetBuilder_Stored_non_nil)
next
  case (CallSetExt x)
  with assms(2) show ?thesis by (simp add: SetExt_Stored_non_nil)
next
  case CallPinRegistry
  with assms show ?thesis by (auto simp: PinRegistry_def)
next
  case CallUnpinRegistry
  with assms show ?thesis by (auto simp: UnpinRegistry_def)
next
  case CallPinResolver
  with assms show ?thesis by (auto simp: PinResolver_def)
next
  case CallUnpinResolver
  with assms show ?thesis by (auto simp: UnpinResolver_def)
qed

text \<open>
  Every snapshot of a run holds a registry and a resolver, once \<^verbatim>\<open>init\<close> does; with the
  default builder it does.
\<close>

lemma published_layers_non_nil:
  assumes "published W b0 s" and "reg (init b0) \<noteq> None \<and> res (init b0) \<noteq> None"
  shows "reg s \<noteq> None \<and> res s \<noteq> None"
  using assms
proof (induction rule: published.induct)
  case published_init
  then show ?case by simp
next
  case (published_write s w s')
  from published_write.IH published_write.prems have "reg s \<noteq> None \<and> res s \<noteq> None"
    by simp
  from exec_layers_non_nil [OF this published_write.hyps(3)] show ?case .
qed

lemma init_builder_New_non_nil:
  "reg (init (builder_New ord)) \<noteq> None \<and> res (init (builder_New ord)) \<noteq> None"
  by (simp add: init_def Let_def builder_New_def builder_BuildRegistry_def
      builder_BuildResolver_def)

text \<open>
  Claim C8. For \<^verbatim>\<open>SetConfig\<close>, \<^verbatim>\<open>SetBuilder\<close>, \<^verbatim>\<open>SetExt\<close> and \<^verbatim>\<open>SetAll\<close>, from every snapshot:
  when the registry is to be built (it is not pinned; for \<^verbatim>\<open>SetAll\<close>, none is passed) and
  the builder returns nil for it, the call panics with \<^verbatim>\<open>ErrNilRegistry\<close>; when the resolver
  is to be built and the builder returns nil for it, the call panics with one of the two
  errors. A panic leaves the old snapshot current. Every snapshot one of the four calls
  publishes holds a registry and a resolver.
\<close>

theorem nil_layer_panics_before_publishing:
  "(\<not> preg s \<and> BuildRegistry (bld s) c (reg s) (ext s) = None \<longrightarrow>
      SetConfig c s = Panic ErrNilRegistry)
   \<and> (\<not> pres s \<and> BuildResolver (bld s) c
          (if preg s then reg s else BuildRegistry (bld s) c (reg s) (ext s))
          (res s) (ext s) = None \<longrightarrow>
      SetConfig c s = Panic ErrNilRegistry \<or> SetConfig c s = Panic ErrNilResolver)
   \<and> (\<not> preg s \<and> BuildRegistry b (cfg s) (reg s) (ext s) = None \<longrightarrow>
      SetBuilder (Some b) s = Panic ErrNilRegistry)
   \<and> (\<not> pres s \<and> BuildResolver b (cfg s)
          (if preg s then reg s else BuildRegistry b (cfg s) (reg s) (ext s))
          (res s) (ext s) = None \<longrightarrow>
      SetBuilder (Some b) s = Panic ErrNilRegistry \<or> SetBuilder (Some b) s = Panic ErrNilResolver)
   \<and> (\<not> preg s \<and> BuildRegistry (bld s) (cfg s) (reg s) x = None \<longrightarrow>
      SetExt x s = Panic ErrNilRegistry)
   \<and> (\<not> pres s \<and> BuildResolver (bld s) (cfg s)
          (if preg s then reg s else BuildRegistry (bld s) (cfg s) (reg s) x) (res s) x = None \<longrightarrow>
      SetExt x s = Panic ErrNilRegistry \<or> SetExt x s = Panic ErrNilResolver)
   \<and> (r = None \<and> BuildRegistry (case bo of None \<Rightarrow> bld s | Some b' \<Rightarrow> b')
        (case co of None \<Rightarrow> cfg s | Some c' \<Rightarrow> c') (reg s) x = None \<longrightarrow>
      SetAll co x r rs bo s = Panic ErrNilRegistry)
   \<and> (rs = None \<and> BuildResolver (case bo of None \<Rightarrow> bld s | Some b' \<Rightarrow> b')
        (case co of None \<Rightarrow> cfg s | Some c' \<Rightarrow> c')
        (if r = None then BuildRegistry (case bo of None \<Rightarrow> bld s | Some b' \<Rightarrow> b')
             (case co of None \<Rightarrow> cfg s | Some c' \<Rightarrow> c') (reg s) x else r) (res s) x = None \<longrightarrow>
      SetAll co x r rs bo s = Panic ErrNilRegistry \<or> SetAll co x r rs bo s = Panic ErrNilResolver)
   \<and> current_after s (Panic e) = s
   \<and> (\<forall>s'. SetConfig c s = Stored s' \<or> SetBuilder (Some b) s = Stored s'
          \<or> SetExt x s = Stored s' \<or> SetAll co x r rs bo s = Stored s' \<longrightarrow>
          reg s' \<noteq> None \<and> res s' \<noteq> None)"
proof -
  have "reg s' \<noteq> None \<and> res s' \<noteq> None"
    if "SetConfig c s = Stored s' \<or> SetBuilder (Some b) s = Stored s' \<or> SetExt x s = Stored s'
          \<or> SetAll co x r rs bo s = Stored s'" for s'
    using that SetConfig_Stored_non_nil SetBuilder_Stored_non_nil SetExt_Stored_non_nil
      SetAll_Stored_non_nil by blast
  then show ?thesis
    using SetConfig_nil_panics [where s = s and c = c]
      SetBuilder_nil_panics [where s = s and b = b]
      SetExt_nil_panics [where s = s and x = x]
      SetAll_nil_panics [where s = s and co = co and x = x and r = r and rs = rs and bo = bo]
    by simp
qed

theorem nil_layer_panics_before_publishing_witness:
  "\<not> preg state_broken_unpinned
   \<and> BuildRegistry (bld state_broken_unpinned) cfg_prefer_key (reg state_broken_unpinned)
        (ext state_broken_unpinned) = None
   \<and> SetConfig cfg_prefer_key state_broken_unpinned = Panic ErrNilRegistry
   \<and> current_after state_broken_unpinned (SetConfig cfg_prefer_key state_broken_unpinned)
        = state_broken_unpinned
   \<and> SetExt (Some ()) state_broken_unpinned = Panic ErrNilRegistry
   \<and> SetBuilder (Some nil_registry_builder) state0 = Panic ErrNilRegistry
   \<and> SetBuilder (Some nil_resolver_builder) state0 = Panic ErrNilResolver
   \<and> SetAll None None None None (Some nil_resolver_builder) state0 = Panic ErrNilResolver
   \<and> SetConfig cfg_prefer_key state0 = Stored state_reconfigured
   \<and> reg state_reconfigured \<noteq> None \<and> res state_reconfigured \<noteq> None"
proof -
  have h1: "\<not> preg state_broken_unpinned"
    and h2: "BuildRegistry (bld state_broken_unpinned) cfg_prefer_key
        (reg state_broken_unpinned) (ext state_broken_unpinned) = None"
    and h3: "BuildRegistry (bld state_broken_unpinned) (cfg state_broken_unpinned)
        (reg state_broken_unpinned) (Some ()) = None"
    by (simp_all add: state_broken_unpinned_eq nil_registry_builder_def)
  have h4: "\<not> preg state0" "\<not> pres state0"
    and h5: "BuildRegistry nil_registry_builder (cfg state0) (reg state0) (ext state0) = None"
    and h6: "BuildRegistry nil_resolver_builder (cfg state0) (reg state0) (ext state0) \<noteq> None"
    and h7: "BuildResolver nil_resolver_builder (cfg state0) rr (res state0) (ext state0) = None"
    for rr
    by (simp_all add: state0_eq nil_registry_builder_def nil_resolver_builder_def
        builder_BuildRegistry_def)
  have p1: "SetBuilder (Some nil_resolver_builder) state0 \<noteq> Panic ErrNilRegistry"
    and p2: "SetAll None None None None (Some nil_resolver_builder) state0 \<noteq> Panic ErrNilRegistry"
    using h4 h6 by (auto simp: SetBuilder_def SetAll_def Let_def state0_eq)
  note t1 = nil_layer_panics_before_publishing [where s = state_broken_unpinned
      and c = cfg_prefer_key and x = "Some ()" and e = ErrNilRegistry]
  note t2 = nil_layer_panics_before_publishing [where s = state0 and b = nil_registry_builder]
  note t3 = nil_layer_panics_before_publishing [where s = state0 and b = nil_resolver_builder
      and co = None and x = None and r = None and rs = None and bo = "Some nil_resolver_builder"
      and c = cfg_prefer_key]
  have a: "SetConfig cfg_prefer_key state_broken_unpinned = Panic ErrNilRegistry"
    using t1 h1 h2 by blast
  have b: "SetExt (Some ()) state_broken_unpinned = Panic ErrNilRegistry"
    using t1 h1 h3 by blast
  have c: "SetBuilder (Some nil_registry_builder) state0 = Panic ErrNilRegistry"
    using t2 h4 h5 by blast
  have d: "SetBuilder (Some nil_resolver_builder) state0 = Panic ErrNilResolver"
    using t3 h4 h7 p1 by auto
  have e: "SetAll None None None None (Some nil_resolver_builder) state0 = Panic ErrNilResolver"
    using t3 h4 h7 [of "BuildRegistry nil_resolver_builder (cfg state0) (reg state0) None"] p2
    by (auto simp: state0_eq)
  have f: "reg state_reconfigured \<noteq> None \<and> res state_reconfigured \<noteq> None"
    using t3 SetConfig_state0 by blast
  show ?thesis
    using a b c d e f h1 h2 SetConfig_state0 by simp
qed

section \<open>Global snapshot: nil arguments\<close>

text \<open>
  Claim C10. From every snapshot, \<^verbatim>\<open>SetRegistry(nil)\<close>, \<^verbatim>\<open>SetResolver(nil)\<close> and
  \<^verbatim>\<open>SetBuilder(nil)\<close> return before \<^verbatim>\<open>st.Store\<close>: nothing is published, and the current
  snapshot, with its config, extension, registry, resolver, builder and both pin flags,
  is the one it was.
\<close>

theorem nil_injection_publishes_nothing:
  "SetRegistry None s = Unchanged \<and> SetResolver None s = Unchanged
   \<and> SetBuilder None s = Unchanged
   \<and> current_after s (SetRegistry None s) = s
   \<and> current_after s (SetResolver None s) = s
   \<and> current_after s (SetBuilder None s) = s"
  by (simp add: SetRegistry_def SetResolver_def SetBuilder_def)

end
